theory Spec2Isabelle
  imports Complex_Main
begin

section \<open>Sliding-window object detection (OpenMV solution script)\<close>

text \<open>
  The development embeds \<^verbatim>\<open>solution-live-sliding-window-object-detection.py\<close>:
  the settings block, the start-up computations (label loading, number of window steps,
  target index) and the body of the main loop up to the end of the nested window loops.
  Python integers are \<^typ>\<open>int\<close>. Probabilities are \<^typ>\<open>real\<close>: the floating-point
  division of \<^verbatim>\<open>math.floor((width - window_width) / stride)\<close> and the comparison with
  the threshold are taken as exact. Every exception the script can raise is a value of
  \<open>error\<close>; the script has no \<^verbatim>\<open>try\<close>, so an exception ends the run.
\<close>

subsection \<open>Data\<close>

datatype error = ZeroDivisionError | ValueError | IndexError | OSError

text \<open>Lines 16 to 22 of the script: the settings the window loops read.\<close>

record settings =
  target_label :: string
  target_threshold :: real
  width :: int
  height :: int
  window_width :: int
  window_height :: int
  stride :: int

definition default_settings :: settings where
  "default_settings =
     \<lparr>target_label = ''dog'', target_threshold = 0.6, width = 160, height = 120,
      window_width = 48, window_height = 48, stride = 24\<rparr>"

text \<open>
  A region of interest \<open>(x, y, w, h)\<close> as passed to \<^verbatim>\<open>img.copy(roi=...)\<close>, and a
  bounding box \<open>(x, y, w, h, prob)\<close> as appended to \<^verbatim>\<open>bboxes\<close>.
\<close>

type_synonym roi = "int \<times> int \<times> int \<times> int"
type_synonym bbox = "int \<times> int \<times> int \<times> int \<times> real"

text \<open>
  The external collaborator: for the frame at hand, cropping the image under a window and
  calling \<^verbatim>\<open>tf.classify\<close> either raises or returns a list of prediction objects, each
  given here by what its \<^verbatim>\<open>output()\<close> returns.
\<close>

type_synonym prediction = "real list"
type_synonym classifier = "roi \<Rightarrow> error + prediction list"

subsection \<open>Python primitives\<close>

text \<open>\<^verbatim>\<open>xs[i]\<close> for a non-negative index: IndexError out of range.\<close>

definition getitem :: "'a list \<Rightarrow> nat \<Rightarrow> error + 'a" where
  "getitem xs i = (if i < length xs then Inr (xs ! i) else Inl IndexError)"

text \<open>\<^verbatim>\<open>xs.index(v)\<close>: the first position of \<open>v\<close>, ValueError when absent.\<close>

fun list_index :: "'a list \<Rightarrow> 'a \<Rightarrow> error + nat" where
  "list_index [] v = Inl ValueError"
| "list_index (x # xs) v =
     (if x = v then Inr 0
      else (case list_index xs v of Inl e \<Rightarrow> Inl e | Inr i \<Rightarrow> Inr (Suc i)))"

text \<open>\<^verbatim>\<open>range(n)\<close>: empty when \<open>n \<le> 0\<close>.\<close>

definition py_range :: "int \<Rightarrow> int list" where
  "py_range n = map int [0..<nat n]"

text \<open>\<^verbatim>\<open>s.rstrip(c)\<close> for a one-character argument: all trailing \<open>c\<close> go.\<close>

definition rstrip :: "char \<Rightarrow> string \<Rightarrow> string" where
  "rstrip c s = rev (dropWhile (\<lambda>d. d = c) (rev s))"

subsection \<open>Start-up (lines 33 to 40)\<close>

text \<open>Line 33; the argument is the sequence of lines of the labels file.\<close>

definition load_labels :: "string list \<Rightarrow> string list" where
  "load_labels file_lines = map (\<lambda>line. rstrip (CHR 0x0D) (rstrip (CHR 0x0A) line)) file_lines"

text \<open>
  Lines 36 and 37, \<^verbatim>\<open>math.floor((width - window_width) / stride) + 1\<close>; the division
  raises for a zero stride.
\<close>

definition num_windows :: "int \<Rightarrow> int \<Rightarrow> int \<Rightarrow> error + int" where
  "num_windows frame window step =
     (if step = 0 then Inl ZeroDivisionError
      else Inr (\<lfloor>real_of_int (frame - window) / real_of_int step\<rfloor> + 1))"

text \<open>
  The start-up values in the order the script computes them:
  \<open>(num_horizontal_windows, num_vertical_windows, target_idx)\<close>.
\<close>

definition startup :: "settings \<Rightarrow> string list \<Rightarrow> error + (int \<times> int \<times> nat)" where
  "startup cfg file_lines =
     (let labels = load_labels file_lines in
      case num_windows (width cfg) (window_width cfg) (stride cfg) of
        Inl e \<Rightarrow> Inl e
      | Inr num_horizontal_windows \<Rightarrow>
          (case num_windows (height cfg) (window_height cfg) (stride cfg) of
             Inl e \<Rightarrow> Inl e
           | Inr num_vertical_windows \<Rightarrow>
               (case list_index labels (target_label cfg) of
                  Inl e \<Rightarrow> Inl e
                | Inr target_idx \<Rightarrow>
                    Inr (num_horizontal_windows, num_vertical_windows, target_idx))))"

subsection \<open>The window loops (lines 61 to 79)\<close>

text \<open>
  Lines 71, 75 and 78: the classifier call, \<^verbatim>\<open>objs[0].output()\<close> and
  \<^verbatim>\<open>predictions[target_idx]\<close>.
\<close>

definition window_score :: "classifier \<Rightarrow> nat \<Rightarrow> roi \<Rightarrow> error + real" where
  "window_score classify target_idx window_img =
     (case classify window_img of
        Inl e \<Rightarrow> Inl e
      | Inr objs \<Rightarrow>
          (case getitem objs 0 of
             Inl e \<Rightarrow> Inl e
           | Inr predictions \<Rightarrow> getitem predictions target_idx))"

text \<open>
  The body of the inner loop. The list \<open>calls\<close> records, in order, the windows the
  classifier has been invoked on; it grows before the outcome of the call is known, and an
  exception leaves it as it is while \<open>bboxes\<close> is lost.
\<close>

definition scan_window ::
  "settings \<Rightarrow> classifier \<Rightarrow> nat \<Rightarrow> int \<Rightarrow> int \<Rightarrow> bbox list \<Rightarrow> roi list
     \<Rightarrow> roi list \<times> (error + bbox list)" where
  "scan_window cfg classify target_idx vertical_window horizontal_window bboxes calls =
     (let x = horizontal_window * stride cfg;
          y = vertical_window * stride cfg;
          window_img = (x, y, window_width cfg, window_height cfg)
      in case window_score classify target_idx window_img of
           Inl e \<Rightarrow> (calls @ [window_img], Inl e)
         | Inr p \<Rightarrow>
             (if p \<ge> target_threshold cfg
              then (calls @ [window_img],
                    Inr (bboxes @ [(x, y, window_width cfg, window_height cfg, p)]))
              else (calls @ [window_img], Inr bboxes)))"

text \<open>The inner loop, over the horizontal window indices still to visit.\<close>

fun scan_row ::
  "settings \<Rightarrow> classifier \<Rightarrow> nat \<Rightarrow> int \<Rightarrow> int list \<Rightarrow> bbox list \<Rightarrow> roi list
     \<Rightarrow> roi list \<times> (error + bbox list)" where
  "scan_row cfg classify target_idx vertical_window [] bboxes calls = (calls, Inr bboxes)"
| "scan_row cfg classify target_idx vertical_window (horizontal_window # rest) bboxes calls =
     (case scan_window cfg classify target_idx vertical_window horizontal_window bboxes calls of
        (calls', Inl e) \<Rightarrow> (calls', Inl e)
      | (calls', Inr bboxes') \<Rightarrow>
          scan_row cfg classify target_idx vertical_window rest bboxes' calls')"

text \<open>
  The outer loop, over the vertical window indices still to visit; \<open>hs\<close> is
  \<^verbatim>\<open>range(num_horizontal_windows)\<close>, evaluated afresh for every row.
\<close>

fun scan_rows ::
  "settings \<Rightarrow> classifier \<Rightarrow> nat \<Rightarrow> int list \<Rightarrow> int list \<Rightarrow> bbox list \<Rightarrow> roi list
     \<Rightarrow> roi list \<times> (error + bbox list)" where
  "scan_rows cfg classify target_idx [] hs bboxes calls = (calls, Inr bboxes)"
| "scan_rows cfg classify target_idx (vertical_window # rest) hs bboxes calls =
     (case scan_row cfg classify target_idx vertical_window hs bboxes calls of
        (calls', Inl e) \<Rightarrow> (calls', Inl e)
      | (calls', Inr bboxes') \<Rightarrow> scan_rows cfg classify target_idx rest hs bboxes' calls')"

text \<open>Lines 61 to 79 for one frame: \<^verbatim>\<open>bboxes = []\<close>, then the nested loops.\<close>

definition scan ::
  "settings \<Rightarrow> classifier \<Rightarrow> int \<Rightarrow> int \<Rightarrow> nat \<Rightarrow> roi list \<times> (error + bbox list)" where
  "scan cfg classify num_horizontal_windows num_vertical_windows target_idx =
     scan_rows cfg classify target_idx
       (py_range num_vertical_windows) (py_range num_horizontal_windows) [] []"

text \<open>
  The script from its first line to the end of the window loops of the first frame: an
  exception at start-up ends the run before the main loop is entered.
\<close>

definition first_frame ::
  "settings \<Rightarrow> string list \<Rightarrow> classifier \<Rightarrow> roi list \<times> (error + bbox list)" where
  "first_frame cfg file_lines classify =
     (case startup cfg file_lines of
        Inl e \<Rightarrow> ([], Inl e)
      | Inr (num_horizontal_windows, num_vertical_windows, target_idx) \<Rightarrow>
          scan cfg classify num_horizontal_windows num_vertical_windows target_idx)"

subsection \<open>Notions used to state the properties\<close>

text \<open>
  The window the loop body builds at a pair of window indices, and the windows of the
  nested loops in the order the loops visit them: row by row, each row from left to right.
\<close>

definition window_at :: "settings \<Rightarrow> int \<Rightarrow> int \<Rightarrow> roi" where
  "window_at cfg vertical_window horizontal_window =
     (horizontal_window * stride cfg, vertical_window * stride cfg,
      window_width cfg, window_height cfg)"

definition grid :: "settings \<Rightarrow> int list \<Rightarrow> int list \<Rightarrow> roi list" where
  "grid cfg vs hs = concat (map (\<lambda>v. map (window_at cfg v) hs) vs)"

definition windows :: "settings \<Rightarrow> int \<Rightarrow> int \<Rightarrow> roi list" where
  "windows cfg num_horizontal_windows num_vertical_windows =
     grid cfg (py_range num_vertical_windows) (py_range num_horizontal_windows)"

text \<open>
  The classifier answers on a list of windows: on each of them the call returns, the list
  of prediction objects is not empty and the first one has an entry at the target index, so
  that no exception is raised there.
\<close>

definition answers :: "classifier \<Rightarrow> nat \<Rightarrow> roi list \<Rightarrow> bool" where
  "answers classify target_idx rois =
     list_all (\<lambda>r. \<not> isl (window_score classify target_idx r)) rois"

text \<open>
  The probability read for a window on which the classifier answers, the box appended for
  it, and the boxes of the windows of a list that meet the threshold, in the order of the
  list.
\<close>

definition score :: "classifier \<Rightarrow> nat \<Rightarrow> roi \<Rightarrow> real" where
  "score classify target_idx r = projr (window_score classify target_idx r)"

definition box :: "classifier \<Rightarrow> nat \<Rightarrow> roi \<Rightarrow> bbox" where
  "box classify target_idx r =
     (case r of (x, y, w, h) \<Rightarrow> (x, y, w, h, score classify target_idx r))"

definition detections :: "settings \<Rightarrow> classifier \<Rightarrow> nat \<Rightarrow> roi list \<Rightarrow> bbox list" where
  "detections cfg classify target_idx rois =
     map (box classify target_idx)
       (filter (\<lambda>r. score classify target_idx r \<ge> target_threshold cfg) rois)"

text \<open>
  The same read directly off the classifier's answer: the entry at the target index of the
  first prediction object's probability vector (0 where the answer has none, which no
  property below relies on), and the boxes built from these entries for the windows of a
  list that meet the threshold, in the order of the list.
\<close>

definition target_entry :: "classifier \<Rightarrow> nat \<Rightarrow> roi \<Rightarrow> real" where
  "target_entry classify target_idx r =
     (case classify r of
        Inl e \<Rightarrow> 0
      | Inr objs \<Rightarrow> (case objs of [] \<Rightarrow> 0 | predictions # _ \<Rightarrow> predictions ! target_idx))"

definition reported :: "settings \<Rightarrow> classifier \<Rightarrow> nat \<Rightarrow> roi list \<Rightarrow> bbox list" where
  "reported cfg classify target_idx rois =
     map (\<lambda>(x, y, w, h). (x, y, w, h, target_entry classify target_idx (x, y, w, h)))
       (filter (\<lambda>r. target_entry classify target_idx r \<ge> target_threshold cfg) rois)"

text \<open>
  The loop body iterated over a list of windows. The nested loops are this single loop over
  \<open>windows\<close> (lemma \<open>scan_windows\<close> below); it is used in the proofs only.
\<close>

fun scan_list ::
  "settings \<Rightarrow> classifier \<Rightarrow> nat \<Rightarrow> roi list \<Rightarrow> bbox list \<Rightarrow> roi list
     \<Rightarrow> roi list \<times> (error + bbox list)" where
  "scan_list cfg classify target_idx [] bboxes calls = (calls, Inr bboxes)"
| "scan_list cfg classify target_idx (r # rest) bboxes calls =
     (case window_score classify target_idx r of
        Inl e \<Rightarrow> (calls @ [r], Inl e)
      | Inr p \<Rightarrow>
          scan_list cfg classify target_idx rest
            (if p \<ge> target_threshold cfg then bboxes @ [box classify target_idx r] else bboxes)
            (calls @ [r]))"

text \<open>
  Raster order on boxes: by row (\<open>y\<close>) first, then by column (\<open>x\<close>).
\<close>

definition raster_before :: "bbox \<Rightarrow> bbox \<Rightarrow> bool" where
  "raster_before a b =
     (case (a, b) of ((ax, ay, _), (bx, by, _)) \<Rightarrow> ay < by \<or> (ay = by \<and> ax < bx))"

text \<open>
  A pixel coordinate lies inside a window.
\<close>

definition inside :: "int \<Rightarrow> int \<Rightarrow> roi \<Rightarrow> bool" where
  "inside px py r = (case r of (x, y, w, h) \<Rightarrow> x \<le> px \<and> px < x + w \<and> y \<le> py \<and> py < y + h)"

text \<open>
  A classifier cut down to the first prediction object of each answer.
\<close>

definition first_only :: "classifier \<Rightarrow> classifier" where
  "first_only classify r =
     (case classify r of Inl e \<Rightarrow> Inl e | Inr objs \<Rightarrow> Inr (take 1 objs))"

subsection \<open>Concrete settings, label files and classifiers\<close>

text \<open>
  A labels file with two labels (one line ending in LF, one in CR LF), and a classifier for
  the default settings whose probability at index 1 is 0.7, 0.6 and 0.9 on the first three
  windows of the top row and 0.3 elsewhere.
\<close>

definition example_labels_file :: "string list" where
  "example_labels_file = [''cat'' @ [CHR 0x0A], ''dog'' @ [CHR 0x0D, CHR 0x0A]]"

definition example_classifier :: classifier where
  "example_classifier r =
     Inr [[0, if r = (0, 0, 48, 48) then 0.7
              else if r = (24, 0, 48, 48) then 0.6
              else if r = (48, 0, 48, 48) then 0.9
              else 0.3]]"

text \<open>
  The default settings with the window as large as the frame, with a frame narrower than
  the window, and with a target label that is not in the labels file.
\<close>

definition full_frame_settings :: settings where
  "full_frame_settings = default_settings\<lparr>window_width := 160, window_height := 120\<rparr>"

definition narrow_frame_settings :: settings where
  "narrow_frame_settings = default_settings\<lparr>width := 40\<rparr>"

definition other_label_settings :: settings where
  "other_label_settings = default_settings\<lparr>target_label := ''bird''\<rparr>"

text \<open>
  Classifiers that return three probabilities, or one, where there are two labels; a
  classifier that raises on the second window of the default raster; and one that returns
  a second prediction object after that of \<open>example_classifier\<close>.
\<close>

definition long_classifier :: classifier where
  "long_classifier r = Inr [[0.1, 0.9, 0.5]]"

definition short_classifier :: classifier where
  "short_classifier r = Inr [[0.9]]"

definition failing_classifier :: classifier where
  "failing_classifier r = (if r = (24, 0, 48, 48) then Inl OSError else example_classifier r)"

definition extra_object_classifier :: classifier where
  "extra_object_classifier r =
     (case example_classifier r of Inl e \<Rightarrow> Inl e | Inr objs \<Rightarrow> Inr (objs @ [[0, 1]]))"

section \<open>Properties\<close>

subsection \<open>The nested loops as one pass over the raster\<close>

lemma scan_row_list:
  "scan_row cfg classify t v hs bboxes calls =
     scan_list cfg classify t (map (window_at cfg v) hs) bboxes calls"
  by (induction hs arbitrary: bboxes calls)
     (auto simp: scan_window_def window_at_def box_def score_def Let_def split: sum.splits)

lemma scan_list_append:
  "scan_list cfg classify t (xs @ ys) bboxes calls =
     (case scan_list cfg classify t xs bboxes calls of
        (calls', Inl e) \<Rightarrow> (calls', Inl e)
      | (calls', Inr bboxes') \<Rightarrow> scan_list cfg classify t ys bboxes' calls')"
  by (induction xs arbitrary: bboxes calls) (auto split: sum.splits)

lemma scan_rows_list:
  "scan_rows cfg classify t vs hs bboxes calls =
     scan_list cfg classify t (grid cfg vs hs) bboxes calls"
  by (induction vs arbitrary: bboxes calls)
     (auto simp: grid_def scan_row_list scan_list_append split: sum.splits prod.splits)

lemma scan_windows:
  "scan cfg classify nh nv t = scan_list cfg classify t (windows cfg nh nv) [] []"
  by (simp add: scan_def windows_def scan_rows_list)

lemma scan_list_ok:
  "answers classify t rois \<Longrightarrow>
   scan_list cfg classify t rois bboxes calls =
     (calls @ rois, Inr (bboxes @ detections cfg classify t rois))"
  by (induction rois arbitrary: bboxes calls)
     (auto simp: answers_def detections_def score_def split: sum.splits)

lemma scan_list_fail:
  "answers classify t pre \<Longrightarrow> window_score classify t r = Inl e \<Longrightarrow>
   scan_list cfg classify t (pre @ r # post) bboxes calls = (calls @ pre @ [r], Inl e)"
  by (induction pre arbitrary: bboxes calls)
     (auto simp: answers_def split: sum.splits)

lemma scan_list_Inr_answers:
  "scan_list cfg classify t rois bboxes calls = (calls', Inr bboxes') \<Longrightarrow>
   answers classify t rois"
  by (induction rois arbitrary: bboxes calls)
     (auto simp: answers_def split: sum.splits)

lemma scan_list_calls:
  "\<exists>n. fst (scan_list cfg classify t rois bboxes calls) = calls @ take n rois"
proof (induction rois arbitrary: bboxes calls)
  case Nil
  then show ?case by simp
next
  case (Cons r rest)
  show ?case
  proof (cases "window_score classify t r")
    case (Inl e)
    then have "fst (scan_list cfg classify t (r # rest) bboxes calls) = calls @ take 1 (r # rest)"
      by simp
    then show ?thesis by blast
  next
    case (Inr p)
    from Cons.IH obtain n where
      "fst (scan_list cfg classify t rest
         (if p \<ge> target_threshold cfg then bboxes @ [box classify t r] else bboxes)
         (calls @ [r])) = (calls @ [r]) @ take n rest"
      by blast
    with Inr have "fst (scan_list cfg classify t (r # rest) bboxes calls) = calls @ take (Suc n) (r # rest)"
      by simp
    then show ?thesis by blast
  qed
qed

subsection \<open>Start-up\<close>

lemma num_windows_div:
  "step \<noteq> 0 \<Longrightarrow> num_windows frame window step = Inr ((frame - window) div step + 1)"
  by (simp add: num_windows_def floor_divide_of_int_eq del: of_int_diff)

lemma list_index_Cons_Inl:
  "x \<noteq> v \<Longrightarrow> list_index (x # xs) v = Inl e \<longleftrightarrow> list_index xs v = Inl e"
  by (simp split: sum.splits)

lemma list_index_Inl: "list_index xs v = Inl e \<longleftrightarrow> v \<notin> set xs \<and> e = ValueError"
proof (induction xs)
  case Nil
  show ?case by auto
next
  case (Cons x xs)
  show ?case
  proof (cases "x = v")
    case True
    then show ?thesis by simp
  next
    case False
    have "list_index (x # xs) v = Inl e \<longleftrightarrow> list_index xs v = Inl e"
      using False by (rule list_index_Cons_Inl)
    also have "\<dots> \<longleftrightarrow> v \<notin> set xs \<and> e = ValueError"
      by (rule Cons.IH)
    also have "\<dots> \<longleftrightarrow> v \<notin> set (x # xs) \<and> e = ValueError"
      using False by auto
    finally show ?thesis .
  qed
qed

lemma list_index_Cons_Suc:
  "x \<noteq> v \<Longrightarrow> list_index (x # xs) v = Inr (Suc k) \<longleftrightarrow> list_index xs v = Inr k"
  by (simp split: sum.splits)

lemma list_index_Inr:
  "list_index xs v = Inr i \<longleftrightarrow> i < length xs \<and> xs ! i = v \<and> (\<forall>j<i. xs ! j \<noteq> v)"
proof (induction xs arbitrary: i)
  case Nil
  then show ?case by simp
next
  case (Cons x xs)
  show ?case
  proof (cases "x = v")
    case True
    have "(\<forall>j<i. (x # xs) ! j \<noteq> v) \<longleftrightarrow> i = 0"
    proof
      assume a: "\<forall>j<i. (x # xs) ! j \<noteq> v"
      show "i = 0"
      proof (rule ccontr)
        assume "i \<noteq> 0"
        then have "0 < i" by simp
        with a have "(x # xs) ! 0 \<noteq> v" by blast
        with True show False by simp
      qed
    next
      assume "i = 0"
      then show "\<forall>j<i. (x # xs) ! j \<noteq> v" by simp
    qed
    moreover have "list_index (x # xs) v = Inr i \<longleftrightarrow> i = 0"
      using True by auto
    ultimately show ?thesis using True by auto
  next
    case False
    show ?thesis
    proof (cases i)
      case 0
      with False show ?thesis by (simp split: sum.splits)
    next
      case (Suc k)
      have "list_index (x # xs) v = Inr (Suc k) \<longleftrightarrow> list_index xs v = Inr k"
        using False by (rule list_index_Cons_Suc)
      also have "\<dots> \<longleftrightarrow> k < length xs \<and> xs ! k = v \<and> (\<forall>j<k. xs ! j \<noteq> v)"
        by (rule Cons.IH)
      also have "\<dots> \<longleftrightarrow> Suc k < length (x # xs) \<and> (x # xs) ! Suc k = v \<and>
                    (\<forall>j<Suc k. (x # xs) ! j \<noteq> v)"
        using False by (simp add: All_less_Suc2)
      finally show ?thesis using Suc by simp
    qed
  qed
qed

lemma startup_Inr:
  "startup cfg file_lines = Inr (nh, nv, t) \<longleftrightarrow>
     stride cfg \<noteq> 0 \<and>
     nh = (width cfg - window_width cfg) div stride cfg + 1 \<and>
     nv = (height cfg - window_height cfg) div stride cfg + 1 \<and>
     list_index (load_labels file_lines) (target_label cfg) = Inr t"
proof (cases "stride cfg = 0")
  case True
  then show ?thesis by (simp add: startup_def num_windows_def)
next
  case False
  then show ?thesis
    by (auto simp: startup_def num_windows_div Let_def split: sum.splits)
qed

subsection \<open>The raster of windows\<close>

lemma length_py_range: "length (py_range n) = nat n"
  by (simp add: py_range_def)

lemma length_grid: "length (grid cfg vs hs) = length vs * length hs"
  by (induction vs) (simp_all add: grid_def)

lemma length_windows: "length (windows cfg nh nv) = nat nv * nat nh"
  by (simp add: windows_def length_grid length_py_range)

subsection \<open>The concrete run evaluated\<close>

lemma py_range_5: "py_range 5 = [0, 1, 2, 3, 4]"
  by (simp add: py_range_def upt_rec)

lemma py_range_4: "py_range 4 = [0, 1, 2, 3]"
  by (simp add: py_range_def upt_rec)

lemma example_labels: "load_labels example_labels_file = [''cat'', ''dog'']"
  by (simp add: load_labels_def example_labels_file_def rstrip_def)

lemma example_startup: "startup default_settings example_labels_file = Inr (5, 4, 1)"
  by (simp add: startup_Inr example_labels default_settings_def)

lemma example_windows:
  "windows default_settings 5 4 =
     [(0, 0, 48, 48), (24, 0, 48, 48), (48, 0, 48, 48), (72, 0, 48, 48), (96, 0, 48, 48),
      (0, 24, 48, 48), (24, 24, 48, 48), (48, 24, 48, 48), (72, 24, 48, 48), (96, 24, 48, 48),
      (0, 48, 48, 48), (24, 48, 48, 48), (48, 48, 48, 48), (72, 48, 48, 48), (96, 48, 48, 48),
      (0, 72, 48, 48), (24, 72, 48, 48), (48, 72, 48, 48), (72, 72, 48, 48), (96, 72, 48, 48)]"
  by (simp add: windows_def grid_def window_at_def py_range_5 py_range_4 default_settings_def)

lemma example_score:
  "window_score example_classifier 1 r =
     Inr (if r = (0, 0, 48, 48) then 0.7
          else if r = (24, 0, 48, 48) then 0.6
          else if r = (48, 0, 48, 48) then 0.9
          else 0.3)"
  by (simp add: window_score_def example_classifier_def getitem_def)

lemma example_answers: "answers example_classifier 1 rois"
  unfolding answers_def list_all_iff by (simp only: example_score) simp

subsection \<open>Positions of the raster and runs without exception\<close>

lemma set_py_range: "set (py_range n) = {i. 0 \<le> i \<and> i < n}"
proof -
  have "\<And>i. 0 \<le> i \<Longrightarrow> i < n \<Longrightarrow> i \<in> int ` {0..<nat n}"
  proof -
    fix i :: int
    assume "0 \<le> i" and "i < n"
    then have "nat i \<in> {0..<nat n}" and "i = int (nat i)" by simp_all
    then show "i \<in> int ` {0..<nat n}" by (rule_tac image_eqI)
  qed
  then show ?thesis by (auto simp: py_range_def)
qed

lemma distinct_py_range: "distinct (py_range n)"
  by (simp add: py_range_def distinct_map)

lemma sorted_py_range: "sorted_wrt (<) (py_range n)"
  by (simp add: py_range_def sorted_wrt_map)

lemma set_grid:
  "set (grid cfg vs hs) = {window_at cfg v h | v h. v \<in> set vs \<and> h \<in> set hs}"
  by (auto simp: grid_def)

lemma grid_Cons: "grid cfg (v # vs) hs = map (window_at cfg v) hs @ grid cfg vs hs"
  by (simp add: grid_def)

lemma grid_product:
  "grid cfg vs hs = map (\<lambda>(v, h). window_at cfg v h) (List.product vs hs)"
  by (induction vs) (simp_all add: grid_Cons grid_def comp_def)

lemma inj_window_at:
  "stride cfg \<noteq> 0 \<Longrightarrow> inj_on (\<lambda>(v, h). window_at cfg v h) A"
  by (auto simp: inj_on_def window_at_def)

lemma distinct_grid:
  "stride cfg \<noteq> 0 \<Longrightarrow> distinct vs \<Longrightarrow> distinct hs \<Longrightarrow> distinct (grid cfg vs hs)"
  by (simp add: grid_product distinct_map distinct_product inj_window_at)

lemma distinct_windows: "stride cfg \<noteq> 0 \<Longrightarrow> distinct (windows cfg nh nv)"
  by (simp add: windows_def distinct_grid distinct_py_range)



lemma scan_Inr:
  assumes "scan cfg classify nh nv t = (calls, Inr bboxes)"
  shows "answers classify t (windows cfg nh nv)"
    and "calls = windows cfg nh nv"
    and "bboxes = detections cfg classify t (windows cfg nh nv)"
proof -
  from assms have run: "scan_list cfg classify t (windows cfg nh nv) [] [] = (calls, Inr bboxes)"
    by (simp add: scan_windows)
  then show a: "answers classify t (windows cfg nh nv)"
    by (rule scan_list_Inr_answers)
  from scan_list_ok [OF a, of cfg "[]" "[]"] run
  show "calls = windows cfg nh nv" and "bboxes = detections cfg classify t (windows cfg nh nv)"
    by simp_all
qed



lemma sorted_grid:
  assumes "0 < stride cfg"
  shows "sorted_wrt (<) vs \<Longrightarrow> sorted_wrt (<) hs \<Longrightarrow>
         sorted_wrt (\<lambda>r r'. fst (snd r) < fst (snd r') \<or>
                             (fst (snd r) = fst (snd r') \<and> fst r < fst r'))
           (grid cfg vs hs)"
proof (induction vs)
  case Nil
  show ?case by (simp add: grid_def)
next
  case (Cons v vs)
  have row: "sorted_wrt (\<lambda>r r'. fst (snd r) < fst (snd r') \<or>
                             (fst (snd r) = fst (snd r') \<and> fst r < fst r'))
               (map (window_at cfg v) hs)"
    using Cons.prems(2) assms
    by (simp add: sorted_wrt_map window_at_def)
  have rest: "sorted_wrt (\<lambda>r r'. fst (snd r) < fst (snd r') \<or>
                             (fst (snd r) = fst (snd r') \<and> fst r < fst r'))
               (grid cfg vs hs)"
    using Cons by simp
  have cross: "\<forall>r \<in> set (map (window_at cfg v) hs). \<forall>r' \<in> set (grid cfg vs hs).
                 fst (snd r) < fst (snd r')"
    using Cons.prems(1) assms by (auto simp: set_grid window_at_def)
  from row rest cross show ?case
    by (simp add: grid_Cons sorted_wrt_append)
qed

subsection \<open>More of the concrete run\<close>

lemma example_detections:
  "detections default_settings example_classifier 1 (windows default_settings 5 4) =
     [(0, 0, 48, 48, 0.7), (24, 0, 48, 48, 0.6), (48, 0, 48, 48, 0.9)]"
  unfolding detections_def box_def score_def example_windows
  by (simp only: example_score) (simp add: default_settings_def)

lemma example_scan:
  "scan default_settings example_classifier 5 4 1 =
     (windows default_settings 5 4,
      Inr [(0, 0, 48, 48, 0.7), (24, 0, 48, 48, 0.6), (48, 0, 48, 48, 0.9)])"
  using scan_list_ok [OF example_answers, of default_settings "windows default_settings 5 4" "[]" "[]"]
  by (simp only: scan_windows example_detections append_Nil)




subsection \<open>Bounds and coverage of the window positions\<close>

lemma position_bounds:
  fixes s d i :: int
  assumes "s \<noteq> 0" and "0 \<le> d" and "0 \<le> i" and "i < d div s + 1"
  shows "0 \<le> i * s \<and> i * s \<le> d"
proof (cases "0 < s")
  case True
  from assms(4) have "i \<le> d div s" by simp
  with True have "i * s \<le> (d div s) * s" by (simp add: mult_right_mono)
  also have "\<dots> \<le> d"
    using div_mult_mod_eq [of d s] pos_mod_sign [OF True, of d] by linarith
  finally have "i * s \<le> d" .
  moreover from assms(3) True have "0 \<le> i * s" by simp
  ultimately show ?thesis by simp
next
  case False
  with assms(1) have neg: "s < 0" by simp
  with assms(2) have "d div s \<le> 0" by (simp add: div_nonneg_neg_le0)
  with assms(3,4) have "i = 0" by simp
  with assms(2) show ?thesis by simp
qed

lemma scan_calls_subset:
  assumes "scan cfg classify nh nv t = (calls, outcome)"
  shows "set calls \<subseteq> set (windows cfg nh nv)"
proof -
  from scan_list_calls [of cfg classify t "windows cfg nh nv" "[]" "[]"] assms
  obtain n where "calls = take n (windows cfg nh nv)"
    by (auto simp: scan_windows)
  then show ?thesis by (simp add: set_take_subset)
qed

lemma windows_bounds:
  assumes "window_width cfg \<le> width cfg" and "window_height cfg \<le> height cfg"
    and "stride cfg \<noteq> 0"
    and "nh = (width cfg - window_width cfg) div stride cfg + 1"
    and "nv = (height cfg - window_height cfg) div stride cfg + 1"
    and "(x, y, w, h) \<in> set (windows cfg nh nv)"
  shows "0 \<le> x \<and> x \<le> width cfg - window_width cfg \<and>
         0 \<le> y \<and> y \<le> height cfg - window_height cfg \<and>
         stride cfg dvd x \<and> stride cfg dvd y"
proof -
  from assms(6) obtain i j where ij: "0 \<le> i" "i < nh" "0 \<le> j" "j < nv"
    and x: "x = i * stride cfg" and y: "y = j * stride cfg"
    by (auto simp: windows_def set_grid set_py_range window_at_def)
  from assms(1) have dw: "0 \<le> width cfg - window_width cfg" by simp
  from assms(2) have dh: "0 \<le> height cfg - window_height cfg" by simp
  from ij(2) assms(4) have "i < (width cfg - window_width cfg) div stride cfg + 1" by simp
  from position_bounds [OF assms(3) dw ij(1) this] x
  have bx: "0 \<le> x \<and> x \<le> width cfg - window_width cfg" by simp
  from ij(4) assms(5) have "j < (height cfg - window_height cfg) div stride cfg + 1" by simp
  from position_bounds [OF assms(3) dh ij(3) this] y
  have "0 \<le> y \<and> y \<le> height cfg - window_height cfg" by simp
  with bx x y show ?thesis by simp
qed

lemma py_range_1: "py_range 1 = [0]"
  by (simp add: py_range_def)

lemma scan_single_calls:
  "fst (scan cfg classify 1 1 t) = [(0, 0, window_width cfg, window_height cfg)]"
  by (simp add: scan_windows windows_def grid_def py_range_1 window_at_def split: sum.splits)

lemma cover_1d:
  fixes s w d p :: int
  assumes "0 < s" and "s \<le> w" and "0 \<le> d" and "0 \<le> p"
  shows "(\<exists>i. 0 \<le> i \<and> i < d div s + 1 \<and> i * s \<le> p \<and> p < i * s + w) \<longleftrightarrow>
         p < d - d mod s + w"
proof
  have ds: "(d div s) * s = d - d mod s"
    using div_mult_mod_eq [of d s] by linarith
  assume "\<exists>i. 0 \<le> i \<and> i < d div s + 1 \<and> i * s \<le> p \<and> p < i * s + w"
  then obtain i where i: "i < d div s + 1" "p < i * s + w" by blast
  from i(1) have "i \<le> d div s" by simp
  with assms(1) have "i * s \<le> (d div s) * s" by (simp add: mult_right_mono)
  with ds i(2) show "p < d - d mod s + w" by linarith
next
  assume b: "p < d - d mod s + w"
  have ds: "(d div s) * s = d - d mod s"
    using div_mult_mod_eq [of d s] by linarith
  have ps: "(p div s) * s = p - p mod s"
    using div_mult_mod_eq [of p s] by linarith
  have pm: "0 \<le> p mod s" "p mod s < s"
    using assms(1) by simp_all
  show "\<exists>i. 0 \<le> i \<and> i < d div s + 1 \<and> i * s \<le> p \<and> p < i * s + w"
  proof (cases "p div s \<le> d div s")
    case True
    have "0 \<le> p div s" using assms(1,4) by (simp add: pos_imp_zdiv_nonneg_iff)
    moreover have "p div s < d div s + 1" using True by simp
    moreover have "(p div s) * s \<le> p" using ps pm by linarith
    moreover have "p < (p div s) * s + w" using ps pm assms(2) by linarith
    ultimately show ?thesis by blast
  next
    case False
    then have "d div s + 1 \<le> p div s" by simp
    with assms(1) have "(d div s + 1) * s \<le> (p div s) * s" by (simp add: mult_right_mono)
    then have "(d div s) * s + s \<le> (p div s) * s" by (simp add: distrib_right)
    with ps pm assms(1) have "(d div s) * s \<le> p" by linarith
    moreover have "0 \<le> d div s" using assms(1,3) by (simp add: pos_imp_zdiv_nonneg_iff)
    moreover have "d div s < d div s + 1" by simp
    moreover have "p < (d div s) * s + w" using b ds by linarith
    ultimately show ?thesis by blast
  qed
qed

lemma mem_windows:
  "r \<in> set (windows cfg nh nv) \<longleftrightarrow>
   (\<exists>i j. 0 \<le> i \<and> i < nh \<and> 0 \<le> j \<and> j < nv \<and> r = window_at cfg j i)"
  by (auto simp: windows_def set_grid set_py_range)

lemma inside_window_at:
  "inside px py (window_at cfg j i) \<longleftrightarrow>
   (i * stride cfg \<le> px \<and> px < i * stride cfg + window_width cfg) \<and>
   (j * stride cfg \<le> py \<and> py < j * stride cfg + window_height cfg)"
  by (simp add: window_at_def inside_def)

lemma inside_windows:
  "(\<exists>r \<in> set (windows cfg nh nv). inside px py r) \<longleftrightarrow>
   (\<exists>i. 0 \<le> i \<and> i < nh \<and> i * stride cfg \<le> px \<and> px < i * stride cfg + window_width cfg) \<and>
   (\<exists>j. 0 \<le> j \<and> j < nv \<and> j * stride cfg \<le> py \<and> py < j * stride cfg + window_height cfg)"
proof
  assume "\<exists>r \<in> set (windows cfg nh nv). inside px py r"
  then obtain i j where "0 \<le> i" "i < nh" "0 \<le> j" "j < nv"
    and "inside px py (window_at cfg j i)"
    by (auto simp: mem_windows)
  then show "(\<exists>i. 0 \<le> i \<and> i < nh \<and> i * stride cfg \<le> px \<and> px < i * stride cfg + window_width cfg) \<and>
   (\<exists>j. 0 \<le> j \<and> j < nv \<and> j * stride cfg \<le> py \<and> py < j * stride cfg + window_height cfg)"
    unfolding inside_window_at by blast
next
  assume "(\<exists>i. 0 \<le> i \<and> i < nh \<and> i * stride cfg \<le> px \<and> px < i * stride cfg + window_width cfg) \<and>
   (\<exists>j. 0 \<le> j \<and> j < nv \<and> j * stride cfg \<le> py \<and> py < j * stride cfg + window_height cfg)"
  then obtain i j where ij: "0 \<le> i" "i < nh" "0 \<le> j" "j < nv"
    and "i * stride cfg \<le> px \<and> px < i * stride cfg + window_width cfg"
    and "j * stride cfg \<le> py \<and> py < j * stride cfg + window_height cfg"
    by blast
  then have "inside px py (window_at cfg j i)"
    unfolding inside_window_at by blast
  moreover from ij have "window_at cfg j i \<in> set (windows cfg nh nv)"
    by (auto simp: mem_windows)
  ultimately show "\<exists>r \<in> set (windows cfg nh nv). inside px py r" by blast
qed

lemma full_frame_startup: "startup full_frame_settings example_labels_file = Inr (1, 1, 1)"
  by (simp add: startup_Inr example_labels full_frame_settings_def default_settings_def)

subsection \<open>Empty rasters, failing windows, the first prediction object\<close>

lemma grid_Nil2: "grid cfg vs [] = []"
  by (induction vs) (simp_all add: grid_def)

lemma windows_empty: "nh < 1 \<or> nv < 1 \<Longrightarrow> windows cfg nh nv = []"
  by (auto simp: windows_def py_range_def grid_Nil2 grid_def)

lemma list_index_member: "v \<in> set xs \<Longrightarrow> \<exists>i. list_index xs v = Inr i"
  by (cases "list_index xs v") (simp_all add: list_index_Inl)

lemma first_frame_Inr:
  "startup cfg file_lines = Inr (nh, nv, t) \<Longrightarrow>
   first_frame cfg file_lines classify = scan cfg classify nh nv t"
  by (simp add: first_frame_def)

lemma startup_absent:
  assumes "target_label cfg \<notin> set (load_labels file_lines)"
  shows "startup cfg file_lines =
           Inl (if stride cfg = 0 then ZeroDivisionError else ValueError)"
proof (cases "stride cfg = 0")
  case True
  then show ?thesis by (simp add: startup_def num_windows_def)
next
  case False
  from assms have "list_index (load_labels file_lines) (target_label cfg) = Inl ValueError"
    by (simp add: list_index_Inl)
  with False show ?thesis by (simp add: startup_def num_windows_div)
qed

lemma scan_outcome_cases:
  obtains (raised) calls e where "scan cfg classify nh nv t = (calls, Inl e)"
  | (returned) calls bboxes where "scan cfg classify nh nv t = (calls, Inr bboxes)"
proof (cases "scan cfg classify nh nv t")
  case (Pair calls outcome)
  then show ?thesis by (cases outcome) (auto intro: raised returned)
qed

lemma window_score_short:
  "classify r = Inr (predictions # others) \<Longrightarrow> length predictions \<le> t \<Longrightarrow>
   window_score classify t r = Inl IndexError"
  by (simp add: window_score_def getitem_def)

lemma window_score_long:
  "classify r = Inr (predictions # others) \<Longrightarrow> t < length predictions \<Longrightarrow>
   window_score classify t r = Inr (predictions ! t)"
  by (simp add: window_score_def getitem_def)

lemma window_score_raise:
  "classify r = Inl e \<Longrightarrow> window_score classify t r = Inl e"
  by (simp add: window_score_def)

lemma window_score_first_only:
  "window_score (first_only classify) t r = window_score classify t r"
proof (cases "classify r")
  case (Inl e)
  then show ?thesis by (simp add: window_score_def first_only_def)
next
  case (Inr objs)
  then show ?thesis
    by (cases objs) (simp_all add: window_score_def first_only_def getitem_def)
qed

lemma scan_list_cong:
  assumes "\<And>r. window_score classify t r = window_score classify' t r"
  shows "scan_list cfg classify t rois bboxes calls = scan_list cfg classify' t rois bboxes calls"
proof (induction rois arbitrary: bboxes calls)
  case Nil
  show ?case by simp
next
  case (Cons r rois)
  have "box classify t r = box classify' t r"
    by (simp add: box_def score_def assms)
  with Cons.IH show ?case
    by (simp add: assms split: sum.splits)
qed

subsection \<open>Further concrete runs\<close>

lemma narrow_num_windows:
  "num_windows (width narrow_frame_settings) (window_width narrow_frame_settings)
     (stride narrow_frame_settings) = Inr 0"
  "num_windows (height narrow_frame_settings) (window_height narrow_frame_settings)
     (stride narrow_frame_settings) = Inr 4"
  by (simp_all add: num_windows_div narrow_frame_settings_def default_settings_def)

lemma narrow_label:
  "target_label narrow_frame_settings \<in> set (load_labels example_labels_file)"
  by (simp add: example_labels narrow_frame_settings_def default_settings_def)

lemma full_frame_windows: "windows full_frame_settings 1 1 = [(0, 0, 160, 120)]"
  by (simp add: windows_def grid_def py_range_1 window_at_def full_frame_settings_def
        default_settings_def)

lemma full_frame_short:
  "scan full_frame_settings short_classifier 1 1 1 = ([(0, 0, 160, 120)], Inl IndexError)"
  unfolding scan_windows full_frame_windows
  by (simp add: window_score_def getitem_def short_classifier_def)

lemma full_frame_long:
  "scan full_frame_settings long_classifier 1 1 1 =
     ([(0, 0, 160, 120)], Inr [(0, 0, 160, 120, 0.9)])"
  unfolding scan_windows full_frame_windows
  by (simp add: window_score_def getitem_def long_classifier_def box_def score_def
        full_frame_settings_def default_settings_def)

lemma failing_answers: "answers failing_classifier 1 [(0, 0, 48, 48)]"
  by (simp add: answers_def failing_classifier_def window_score_def example_classifier_def
        getitem_def)

lemma failing_raise: "failing_classifier (24, 0, 48, 48) = Inl OSError"
  by (simp add: failing_classifier_def)

lemma example_windows_split:
  "windows default_settings 5 4 =
     [(0, 0, 48, 48)] @ (24, 0, 48, 48) #
     [(48, 0, 48, 48), (72, 0, 48, 48), (96, 0, 48, 48),
      (0, 24, 48, 48), (24, 24, 48, 48), (48, 24, 48, 48), (72, 24, 48, 48), (96, 24, 48, 48),
      (0, 48, 48, 48), (24, 48, 48, 48), (48, 48, 48, 48), (72, 48, 48, 48), (96, 48, 48, 48),
      (0, 72, 48, 48), (24, 72, 48, 48), (48, 72, 48, 48), (72, 72, 48, 48), (96, 72, 48, 48)]"
  by (simp only: example_windows append_Cons append_Nil)

lemma extra_object_first_only:
  "first_only extra_object_classifier = first_only example_classifier"
  by (rule ext) (simp add: first_only_def extra_object_classifier_def example_classifier_def)

subsection \<open>The result in terms of the classifier's answers\<close>

lemma window_score_Inr_iff:
  "window_score classify t r = Inr p \<longleftrightarrow>
   (\<exists>ps rest. classify r = Inr (ps # rest) \<and> t < length ps \<and> p = ps ! t)"
proof (cases "classify r")
  case (Inl e)
  then show ?thesis by (simp add: window_score_def)
next
  case (Inr objs)
  show ?thesis
  proof (cases objs)
    case Nil
    with Inr show ?thesis by (simp add: window_score_def getitem_def)
  next
    case (Cons ps rest)
    with Inr show ?thesis by (auto simp: window_score_def getitem_def)
  qed
qed

lemma not_isl_window_score:
  "\<not> isl (window_score classify t r) \<longleftrightarrow>
   (\<exists>ps rest. classify r = Inr (ps # rest) \<and> t < length ps)"
proof (cases "window_score classify t r")
  case (Inl e)
  have "\<not> (\<exists>ps rest. classify r = Inr (ps # rest) \<and> t < length ps)"
  proof
    assume "\<exists>ps rest. classify r = Inr (ps # rest) \<and> t < length ps"
    then obtain ps rest where "classify r = Inr (ps # rest)" and "t < length ps" by blast
    then have "window_score classify t r = Inr (ps ! t)"
      by (simp add: window_score_long)
    with Inl show False by simp
  qed
  with Inl show ?thesis by simp
next
  case (Inr p)
  then have "\<exists>ps rest. classify r = Inr (ps # rest) \<and> t < length ps"
    unfolding window_score_Inr_iff by blast
  with Inr show ?thesis by simp
qed

lemma answers_iff:
  "answers classify t rois \<longleftrightarrow>
   (\<forall>r \<in> set rois. \<exists>ps rest. classify r = Inr (ps # rest) \<and> t < length ps)"
  by (simp add: answers_def list_all_iff not_isl_window_score)

lemma score_target_entry:
  assumes "answers classify t rois" and "r \<in> set rois"
  shows "score classify t r = target_entry classify t r"
proof -
  from assms obtain ps rest where c: "classify r = Inr (ps # rest)" and "t < length ps"
    unfolding answers_iff by blast
  then have "window_score classify t r = Inr (ps ! t)"
    by (simp add: window_score_long)
  then have "score classify t r = ps ! t" by (simp add: score_def)
  moreover from c have "target_entry classify t r = ps ! t" by (simp add: target_entry_def)
  ultimately show ?thesis by simp
qed

lemma detections_reported:
  assumes "answers classify t rois"
  shows "detections cfg classify t rois = reported cfg classify t rois"
proof -
  have flt: "filter (\<lambda>r. score classify t r \<ge> target_threshold cfg) rois =
             filter (\<lambda>r. target_entry classify t r \<ge> target_threshold cfg) rois"
    by (rule filter_cong [OF refl]) (simp add: score_target_entry [OF assms])
  have "map (box classify t) (filter (\<lambda>r. target_entry classify t r \<ge> target_threshold cfg) rois) =
        map (\<lambda>(x, y, w, h). (x, y, w, h, target_entry classify t (x, y, w, h)))
          (filter (\<lambda>r. target_entry classify t r \<ge> target_threshold cfg) rois)"
  proof (rule map_cong [OF refl])
    fix r assume "r \<in> set (filter (\<lambda>r. target_entry classify t r \<ge> target_threshold cfg) rois)"
    then have "r \<in> set rois" by simp
    from score_target_entry [OF assms this]
    show "box classify t r = (case r of (x, y, w, h) \<Rightarrow>
            (x, y, w, h, target_entry classify t (x, y, w, h)))"
      by (simp add: box_def split_beta)
  qed
  with flt show ?thesis by (simp add: detections_def reported_def)
qed

lemma scan_reported:
  assumes "answers classify t (windows cfg nh nv)"
  shows "scan cfg classify nh nv t =
           (windows cfg nh nv, Inr (reported cfg classify t (windows cfg nh nv)))"
  using scan_list_ok [OF assms, of cfg "[]" "[]"] detections_reported [OF assms, of cfg]
  by (simp add: scan_windows)

lemma set_windows:
  "set (windows cfg nh nv) =
     {(i * stride cfg, j * stride cfg, window_width cfg, window_height cfg) | i j.
        0 \<le> i \<and> i < nh \<and> 0 \<le> j \<and> j < nv}"
proof (rule set_eqI)
  fix r
  show "r \<in> set (windows cfg nh nv) \<longleftrightarrow>
        r \<in> {(i * stride cfg, j * stride cfg, window_width cfg, window_height cfg) | i j.
               0 \<le> i \<and> i < nh \<and> 0 \<le> j \<and> j < nv}"
    unfolding mem_windows window_at_def mem_Collect_eq by blast
qed

section \<open>The claims\<close>

text \<open>
  C1. With \<open>w \<le> W\<close>, \<open>h \<le> H\<close> and a positive stride, a scan of a frame on which the
  classifier answers every window returns normally and has invoked the classifier on
  exactly \<open>(\<lfloor>(W - w) / stride\<rfloor> + 1) * (\<lfloor>(H - h) / stride\<rfloor> + 1)\<close> windows: the
  invocations are pairwise different, they are the windows
  \<open>(i * stride, j * stride, w, h)\<close> with \<open>0 \<le> i < \<lfloor>(W - w) / stride\<rfloor> + 1\<close> and
  \<open>0 \<le> j < \<lfloor>(H - h) / stride\<rfloor> + 1\<close>, and the returned boxes are those built from the
  classifier's answers on exactly these windows. For the default settings (160 by 120
  frame, 48 by 48 window, stride 24) that is 5 * 4 = 20 windows.
\<close>

theorem C1_window_count:
  assumes "window_width cfg \<le> width cfg" and "window_height cfg \<le> height cfg"
    and "0 < stride cfg"
    and "startup cfg file_lines = Inr (nh, nv, t)"
    and "\<forall>r \<in> set (windows cfg nh nv).
           \<exists>predictions others. classify r = Inr (predictions # others) \<and> t < length predictions"
  shows "\<exists>calls bboxes.
           scan cfg classify nh nv t = (calls, Inr bboxes) \<and>
           int (length calls) =
             (\<lfloor>real_of_int (width cfg - window_width cfg) / real_of_int (stride cfg)\<rfloor> + 1) *
             (\<lfloor>real_of_int (height cfg - window_height cfg) / real_of_int (stride cfg)\<rfloor> + 1) \<and>
           distinct calls \<and>
           set calls =
             {(i * stride cfg, j * stride cfg, window_width cfg, window_height cfg) | i j.
                0 \<le> i \<and>
                i < \<lfloor>real_of_int (width cfg - window_width cfg) / real_of_int (stride cfg)\<rfloor> + 1 \<and>
                0 \<le> j \<and>
                j < \<lfloor>real_of_int (height cfg - window_height cfg) / real_of_int (stride cfg)\<rfloor> + 1} \<and>
           bboxes = reported cfg classify t calls"
proof -
  let ?nh = "\<lfloor>real_of_int (width cfg - window_width cfg) / real_of_int (stride cfg)\<rfloor> + 1"
  let ?nv = "\<lfloor>real_of_int (height cfg - window_height cfg) / real_of_int (stride cfg)\<rfloor> + 1"
  from assms(4) have "nh = (width cfg - window_width cfg) div stride cfg + 1"
    and "nv = (height cfg - window_height cfg) div stride cfg + 1"
    by (simp_all add: startup_Inr)
  then have nh: "nh = ?nh" and nv: "nv = ?nv"
    by (simp_all only: floor_divide_of_int_eq)
  from assms(1,3) have "0 \<le> (width cfg - window_width cfg) div stride cfg"
    by (simp add: pos_imp_zdiv_nonneg_iff)
  then have nh_pos: "0 \<le> ?nh" by (simp only: floor_divide_of_int_eq; simp)
  from assms(2,3) have "0 \<le> (height cfg - window_height cfg) div stride cfg"
    by (simp add: pos_imp_zdiv_nonneg_iff)
  then have nv_pos: "0 \<le> ?nv" by (simp only: floor_divide_of_int_eq; simp)
  from assms(5) have "answers classify t (windows cfg nh nv)"
    by (simp only: answers_iff)
  then have run: "scan cfg classify nh nv t =
      (windows cfg nh nv, Inr (reported cfg classify t (windows cfg nh nv)))"
    by (rule scan_reported)
  have "int (length (windows cfg ?nh ?nv)) = ?nh * ?nv"
    using nh_pos nv_pos by (simp only: length_windows) (simp add: mult.commute)
  then have len: "int (length (windows cfg nh nv)) = ?nh * ?nv"
    by (simp only: nh nv)
  from assms(3) have "stride cfg \<noteq> 0" by simp
  then have dist: "distinct (windows cfg nh nv)" by (rule distinct_windows)
  have pos: "set (windows cfg nh nv) =
      {(i * stride cfg, j * stride cfg, window_width cfg, window_height cfg) | i j.
         0 \<le> i \<and> i < ?nh \<and> 0 \<le> j \<and> j < ?nv}"
    using set_windows [of cfg ?nh ?nv] by (simp only: nh nv)
  from run len dist pos show ?thesis by blast
qed

theorem C1_window_count_witness:
  "window_width default_settings \<le> width default_settings \<and>
   window_height default_settings \<le> height default_settings \<and>
   0 < stride default_settings \<and>
   width default_settings = 160 \<and> height default_settings = 120 \<and>
   window_width default_settings = 48 \<and> window_height default_settings = 48 \<and>
   stride default_settings = 24 \<and>
   startup default_settings example_labels_file = Inr (5, 4, 1) \<and>
   answers example_classifier 1 (windows default_settings 5 4) \<and>
   (\<exists>calls bboxes.
      scan default_settings example_classifier 5 4 1 = (calls, Inr bboxes) \<and>
      int (length calls) = 5 * 4 \<and> length calls = 20 \<and> distinct calls \<and>
      bboxes = reported default_settings example_classifier 1 calls \<and>
      bboxes = [(0, 0, 48, 48, 0.7), (24, 0, 48, 48, 0.6), (48, 0, 48, 48, 0.9)])"
proof -
  have cfg: "window_width default_settings \<le> width default_settings"
    "window_height default_settings \<le> height default_settings"
    "0 < stride default_settings"
    by (simp_all add: default_settings_def)
  have vals: "width default_settings = 160" "height default_settings = 120"
    "window_width default_settings = 48" "window_height default_settings = 48"
    "stride default_settings = 24"
    by (simp_all add: default_settings_def)
  have each: "\<forall>r \<in> set (windows default_settings 5 4).
      \<exists>predictions others. example_classifier r = Inr (predictions # others) \<and>
        1 < length predictions"
    using example_answers [of "windows default_settings 5 4"] by (simp only: answers_iff)
  from C1_window_count [OF cfg example_startup each]
  obtain calls bboxes where
    run: "scan default_settings example_classifier 5 4 1 = (calls, Inr bboxes)"
    and len: "int (length calls) =
       (\<lfloor>real_of_int (width default_settings - window_width default_settings) /
         real_of_int (stride default_settings)\<rfloor> + 1) *
       (\<lfloor>real_of_int (height default_settings - window_height default_settings) /
         real_of_int (stride default_settings)\<rfloor> + 1)"
    and dist: "distinct calls"
    and rep: "bboxes = reported default_settings example_classifier 1 calls"
    by blast
  have "\<lfloor>real_of_int (160 - 48) / real_of_int 24\<rfloor> = 4"
    by (simp only: floor_divide_of_int_eq; simp)
  moreover have "\<lfloor>real_of_int (120 - 48) / real_of_int 24\<rfloor> = 3"
    by (simp only: floor_divide_of_int_eq; simp)
  ultimately have n: "int (length calls) = 5 * 4 \<and> length calls = 20"
    using len by (simp only: vals) simp
  from run example_scan
  have val: "bboxes = [(0, 0, 48, 48, 0.7), (24, 0, 48, 48, 0.6), (48, 0, 48, 48, 0.9)]"
    by simp
  from run n dist rep val
  have "\<exists>calls bboxes.
      scan default_settings example_classifier 5 4 1 = (calls, Inr bboxes) \<and>
      int (length calls) = 5 * 4 \<and> length calls = 20 \<and> distinct calls \<and>
      bboxes = reported default_settings example_classifier 1 calls \<and>
      bboxes = [(0, 0, 48, 48, 0.7), (24, 0, 48, 48, 0.6), (48, 0, 48, 48, 0.9)]"
    by blast
  note concl = this
  show ?thesis
    by (intro conjI) (rule cfg vals example_startup example_answers concl)+
qed



text \<open>
  C3. With a positive stride, the boxes of a scan that returns are in raster order:
  strictly increasing in \<open>y\<close>, and within one row strictly increasing in \<open>x\<close>, whatever
  the scores are. The concrete run has the scores 0.7, 0.6, 0.9 in that order, so the
  sequence is sorted by score neither upwards nor downwards.
\<close>

theorem C3_raster_order:
  assumes "0 < stride cfg"
    and "scan cfg classify nh nv t = (calls, Inr bboxes)"
  shows "sorted_wrt raster_before bboxes"
proof -
  have "sorted_wrt (\<lambda>r r'. fst (snd r) < fst (snd r') \<or>
                             (fst (snd r) = fst (snd r') \<and> fst r < fst r'))
          (windows cfg nh nv)"
    unfolding windows_def using assms(1) sorted_py_range sorted_py_range by (rule sorted_grid)
  then have "sorted_wrt (\<lambda>r r'. fst (snd r) < fst (snd r') \<or>
                             (fst (snd r) = fst (snd r') \<and> fst r < fst r'))
          (filter (\<lambda>r. score classify t r \<ge> target_threshold cfg) (windows cfg nh nv))"
    by (rule sorted_wrt_filter)
  then have "sorted_wrt raster_before (detections cfg classify t (windows cfg nh nv))"
    by (simp add: detections_def sorted_wrt_map raster_before_def box_def split_beta)
  with scan_Inr(3) [OF assms(2)] show ?thesis by simp
qed

theorem C3_raster_order_witness:
  "0 < stride default_settings \<and>
   scan default_settings example_classifier 5 4 1 =
     (windows default_settings 5 4,
      Inr [(0, 0, 48, 48, 0.7), (24, 0, 48, 48, 0.6), (48, 0, 48, 48, 0.9)]) \<and>
   sorted_wrt raster_before
     ([(0, 0, 48, 48, 0.7), (24, 0, 48, 48, 0.6), (48, 0, 48, 48, 0.9)] :: bbox list) \<and>
   \<not> sorted (map (\<lambda>b. snd (snd (snd (snd b))))
     ([(0, 0, 48, 48, 0.7), (24, 0, 48, 48, 0.6), (48, 0, 48, 48, 0.9)] :: bbox list)) \<and>
   \<not> sorted (rev (map (\<lambda>b. snd (snd (snd (snd b))))
     ([(0, 0, 48, 48, 0.7), (24, 0, 48, 48, 0.6), (48, 0, 48, 48, 0.9)] :: bbox list)))"
proof -
  have pos: "0 < stride default_settings" by (simp add: default_settings_def)
  have "\<not> sorted (map (\<lambda>b. snd (snd (snd (snd b))))
     ([(0, 0, 48, 48, 0.7), (24, 0, 48, 48, 0.6), (48, 0, 48, 48, 0.9)] :: bbox list))"
    and "\<not> sorted (rev (map (\<lambda>b. snd (snd (snd (snd b))))
     ([(0, 0, 48, 48, 0.7), (24, 0, 48, 48, 0.6), (48, 0, 48, 48, 0.9)] :: bbox list)))"
    by simp_all
  note ns = this
  show ?thesis
    by (intro conjI)
       (rule pos example_scan C3_raster_order [OF pos example_scan] ns)+
qed

text \<open>
  C4. With \<open>w \<le> W\<close> and \<open>h \<le> H\<close>, every window the classifier is invoked on in a
  scan (whether the scan returns or raises) has \<open>0 \<le> x \<le> W - w\<close> and
  \<open>0 \<le> y \<le> H - h\<close>, with \<open>x\<close> and \<open>y\<close> multiples of the stride; when \<open>w = W\<close> and
  \<open>h = H\<close> the classifier is invoked on exactly one window, at \<open>(0, 0)\<close>.
\<close>

theorem C4_window_positions:
  assumes "window_width cfg \<le> width cfg" and "window_height cfg \<le> height cfg"
    and "startup cfg file_lines = Inr (nh, nv, t)"
    and "scan cfg classify nh nv t = (calls, outcome)"
  shows "(\<forall>(x, y, w, h) \<in> set calls.
            0 \<le> x \<and> x \<le> width cfg - window_width cfg \<and>
            0 \<le> y \<and> y \<le> height cfg - window_height cfg \<and>
            stride cfg dvd x \<and> stride cfg dvd y) \<and>
         (window_width cfg = width cfg \<and> window_height cfg = height cfg \<longrightarrow>
            calls = [(0, 0, width cfg, height cfg)])"
proof -
  from assms(3) have s: "stride cfg \<noteq> 0"
    and nh: "nh = (width cfg - window_width cfg) div stride cfg + 1"
    and nv: "nv = (height cfg - window_height cfg) div stride cfg + 1"
    by (simp_all add: startup_Inr)
  have "\<And>x y w h. (x, y, w, h) \<in> set calls \<Longrightarrow>
            0 \<le> x \<and> x \<le> width cfg - window_width cfg \<and>
            0 \<le> y \<and> y \<le> height cfg - window_height cfg \<and>
            stride cfg dvd x \<and> stride cfg dvd y"
  proof -
    fix x y w h assume "(x, y, w, h) \<in> set calls"
    with scan_calls_subset [OF assms(4)] have "(x, y, w, h) \<in> set (windows cfg nh nv)"
      by blast
    with assms(1,2) s nh nv show "0 \<le> x \<and> x \<le> width cfg - window_width cfg \<and>
            0 \<le> y \<and> y \<le> height cfg - window_height cfg \<and>
            stride cfg dvd x \<and> stride cfg dvd y"
      by (rule windows_bounds)
  qed
  then have first: "\<forall>(x, y, w, h) \<in> set calls.
            0 \<le> x \<and> x \<le> width cfg - window_width cfg \<and>
            0 \<le> y \<and> y \<le> height cfg - window_height cfg \<and>
            stride cfg dvd x \<and> stride cfg dvd y"
    by blast
  have second: "calls = [(0, 0, width cfg, height cfg)]"
    if eq: "window_width cfg = width cfg \<and> window_height cfg = height cfg"
  proof -
    from eq nh nv have "nh = 1" and "nv = 1" by simp_all
    with assms(4) scan_single_calls [of cfg classify t] eq show ?thesis by simp
  qed
  from first second show ?thesis by blast
qed

theorem C4_window_positions_witness:
  "window_width default_settings \<le> width default_settings \<and>
   window_height default_settings \<le> height default_settings \<and>
   startup default_settings example_labels_file = Inr (5, 4, 1) \<and>
   list_all (\<lambda>(x, y, w, h). 0 \<le> x \<and> x \<le> 112 \<and> 0 \<le> y \<and> y \<le> 72 \<and> 24 dvd x \<and> 24 dvd y)
     (fst (scan default_settings example_classifier 5 4 1)) \<and>
   window_width full_frame_settings = width full_frame_settings \<and>
   window_height full_frame_settings = height full_frame_settings \<and>
   startup full_frame_settings example_labels_file = Inr (1, 1, 1) \<and>
   fst (scan full_frame_settings example_classifier 1 1 1) = [(0, 0, 160, 120)]"
proof -
  have d: "window_width default_settings \<le> width default_settings"
    "window_height default_settings \<le> height default_settings"
    by (simp_all add: default_settings_def)
  have f: "window_width full_frame_settings = width full_frame_settings"
    "window_height full_frame_settings = height full_frame_settings"
    by (simp_all add: full_frame_settings_def default_settings_def)
  then have f': "window_width full_frame_settings \<le> width full_frame_settings"
    "window_height full_frame_settings \<le> height full_frame_settings"
    by simp_all
  have "\<forall>(x, y, w, h) \<in> set (fst (scan default_settings example_classifier 5 4 1)).
      0 \<le> x \<and> x \<le> width default_settings - window_width default_settings \<and>
      0 \<le> y \<and> y \<le> height default_settings - window_height default_settings \<and>
      stride default_settings dvd x \<and> stride default_settings dvd y"
    by (rule C4_window_positions [OF d example_startup prod.collapse [symmetric], THEN conjunct1])
  then have general:
    "list_all (\<lambda>(x, y, w, h). 0 \<le> x \<and> x \<le> 112 \<and> 0 \<le> y \<and> y \<le> 72 \<and> 24 dvd x \<and> 24 dvd y)
       (fst (scan default_settings example_classifier 5 4 1))"
    by (simp add: default_settings_def list_all_iff)
  have "window_width full_frame_settings = width full_frame_settings \<and>
        window_height full_frame_settings = height full_frame_settings \<longrightarrow>
        fst (scan full_frame_settings example_classifier 1 1 1) =
          [(0, 0, width full_frame_settings, height full_frame_settings)]"
    by (rule C4_window_positions [OF f' full_frame_startup prod.collapse [symmetric],
          THEN conjunct2])
  with f have edge: "fst (scan full_frame_settings example_classifier 1 1 1) = [(0, 0, 160, 120)]"
    by (simp add: full_frame_settings_def default_settings_def)
  show ?thesis
    by (intro conjI) (rule d f example_startup full_frame_startup general edge)+
qed

text \<open>
  C5, as stated, fails for the default settings: the windows start at
  \<open>x = 0, 24, 48, 72, 96\<close> and are 48 wide, so the pixel \<open>(150, 10)\<close> of the 160 by 120
  frame lies in no scanned window.
\<close>

theorem C5_full_coverage_counterexample:
  "window_width default_settings \<le> width default_settings \<and>
   window_height default_settings \<le> height default_settings \<and>
   startup default_settings example_labels_file = Inr (5, 4, 1) \<and>
   (0::int) \<le> 150 \<and> 150 < width default_settings \<and>
   (0::int) \<le> 10 \<and> 10 < height default_settings \<and>
   \<not> list_ex (inside 150 10) (fst (scan default_settings example_classifier 5 4 1))"
proof -
  have "\<not> list_ex (inside 150 10) (fst (scan default_settings example_classifier 5 4 1))"
    unfolding example_scan fst_conv example_windows by (simp add: inside_def)
  moreover have "window_width default_settings \<le> width default_settings"
    "window_height default_settings \<le> height default_settings"
    "(0::int) \<le> 150" "150 < width default_settings"
    "(0::int) \<le> 10" "10 < height default_settings"
    by (simp_all add: default_settings_def)
  ultimately show ?thesis using example_startup by simp
qed

text \<open>
  C5, amended. With \<open>w \<le> W\<close>, \<open>h \<le> H\<close> and \<open>0 < stride \<le> min w h\<close>, a pixel
  \<open>(px, py)\<close> of the frame lies inside a window of a scan that returns if and only if
  \<open>px < W - (W - w) mod stride\<close> and \<open>py < H - (H - h) mod stride\<close>; the whole frame is
  covered exactly when the stride divides \<open>W - w\<close> and \<open>H - h\<close>.
\<close>

theorem C5_covered_region:
  assumes "window_width cfg \<le> width cfg" and "window_height cfg \<le> height cfg"
    and "0 < stride cfg"
    and "stride cfg \<le> window_width cfg" and "stride cfg \<le> window_height cfg"
    and "startup cfg file_lines = Inr (nh, nv, t)"
    and "scan cfg classify nh nv t = (calls, Inr bboxes)"
    and "0 \<le> px" and "px < width cfg" and "0 \<le> py" and "py < height cfg"
  shows "(\<exists>r \<in> set calls. inside px py r) \<longleftrightarrow>
           px < width cfg - (width cfg - window_width cfg) mod stride cfg \<and>
           py < height cfg - (height cfg - window_height cfg) mod stride cfg"
proof -
  from assms(6) have nh: "nh = (width cfg - window_width cfg) div stride cfg + 1"
    and nv: "nv = (height cfg - window_height cfg) div stride cfg + 1"
    by (simp_all add: startup_Inr)
  from assms(1) have dw: "0 \<le> width cfg - window_width cfg" by simp
  from assms(2) have dh: "0 \<le> height cfg - window_height cfg" by simp
  have "(\<exists>r \<in> set calls. inside px py r) \<longleftrightarrow>
          (\<exists>r \<in> set (windows cfg nh nv). inside px py r)"
    using scan_Inr(2) [OF assms(7)] by simp
  also have "\<dots> \<longleftrightarrow>
      px < (width cfg - window_width cfg) - (width cfg - window_width cfg) mod stride cfg
             + window_width cfg \<and>
      py < (height cfg - window_height cfg) - (height cfg - window_height cfg) mod stride cfg
             + window_height cfg"
    unfolding inside_windows nh nv
    by (simp only: cover_1d [OF assms(3) assms(4) dw assms(8)]
                   cover_1d [OF assms(3) assms(5) dh assms(10)])
  also have "\<dots> \<longleftrightarrow>
      px < width cfg - (width cfg - window_width cfg) mod stride cfg \<and>
      py < height cfg - (height cfg - window_height cfg) mod stride cfg"
    by (simp add: algebra_simps)
  finally show ?thesis .
qed

theorem C5_covered_region_witness:
  "window_width default_settings \<le> width default_settings \<and>
   window_height default_settings \<le> height default_settings \<and>
   0 < stride default_settings \<and>
   stride default_settings \<le> window_width default_settings \<and>
   stride default_settings \<le> window_height default_settings \<and>
   startup default_settings example_labels_file = Inr (5, 4, 1) \<and>
   (0::int) \<le> 143 \<and> 143 < width default_settings \<and>
   (0::int) \<le> 119 \<and> 119 < height default_settings \<and>
   (\<exists>r \<in> set (windows default_settings 5 4). inside 143 119 r) \<and>
   (0::int) \<le> 144 \<and> 144 < width default_settings \<and>
   \<not> (\<exists>r \<in> set (windows default_settings 5 4). inside 144 119 r)"
proof -
  have c: "window_width default_settings \<le> width default_settings"
    "window_height default_settings \<le> height default_settings"
    "0 < stride default_settings"
    "stride default_settings \<le> window_width default_settings"
    "stride default_settings \<le> window_height default_settings"
    by (simp_all add: default_settings_def)
  have p: "(0::int) \<le> 143" "143 < width default_settings"
    "(0::int) \<le> 119" "119 < height default_settings"
    "(0::int) \<le> 144" "144 < width default_settings"
    by (simp_all add: default_settings_def)
  have "(\<exists>r \<in> set (windows default_settings 5 4). inside 143 119 r) \<longleftrightarrow>
      143 < width default_settings -
        (width default_settings - window_width default_settings) mod stride default_settings \<and>
      119 < height default_settings -
        (height default_settings - window_height default_settings) mod stride default_settings"
    by (rule C5_covered_region [OF c example_startup example_scan p(1-4)])
  then have yes: "\<exists>r \<in> set (windows default_settings 5 4). inside 143 119 r"
    by (simp add: default_settings_def)
  have "(\<exists>r \<in> set (windows default_settings 5 4). inside 144 119 r) \<longleftrightarrow>
      144 < width default_settings -
        (width default_settings - window_width default_settings) mod stride default_settings \<and>
      119 < height default_settings -
        (height default_settings - window_height default_settings) mod stride default_settings"
    by (rule C5_covered_region [OF c example_startup example_scan p(5,6) p(3,4)])
  then have no: "\<not> (\<exists>r \<in> set (windows default_settings 5 4). inside 144 119 r)"
    by (simp add: default_settings_def)
  show ?thesis
    by (intro conjI) (rule c p example_startup yes no)+
qed

text \<open>
  C6, as stated, fails: with a 40 pixel wide frame and the 48 pixel window the computed
  number of horizontal windows is 0, start-up succeeds all the same, and the first frame's
  scan returns the empty detection list without any error.
\<close>

theorem C6_configuration_error_counterexample:
  "width narrow_frame_settings < window_width narrow_frame_settings \<and>
   num_windows (width narrow_frame_settings) (window_width narrow_frame_settings)
     (stride narrow_frame_settings) = Inr 0 \<and>
   startup narrow_frame_settings example_labels_file = Inr (0, 4, 1) \<and>
   first_frame narrow_frame_settings example_labels_file example_classifier = ([], Inr [])"
proof -
  have a: "width narrow_frame_settings < window_width narrow_frame_settings"
    by (simp add: narrow_frame_settings_def default_settings_def)
  have b: "startup narrow_frame_settings example_labels_file = Inr (0, 4, 1)"
    by (simp add: startup_Inr example_labels narrow_frame_settings_def default_settings_def)
  have "scan narrow_frame_settings example_classifier 0 4 1 = ([], Inr [])"
    by (simp add: scan_windows windows_empty)
  with b have c: "first_frame narrow_frame_settings example_labels_file example_classifier =
      ([], Inr [])"
    by (simp add: first_frame_def)
  show ?thesis
    by (intro conjI) (rule a b c narrow_num_windows)+
qed

text \<open>
  C6, amended. When both numbers of windows can be computed (the stride is not zero), the
  target label is in the label list and the computed number of horizontal or of vertical
  windows is less than 1, start-up succeeds and the scan of a frame invokes the classifier
  on no window and returns the empty detection list; no error is raised.
\<close>

theorem C6_no_windows_empty_result:
  assumes "num_windows (width cfg) (window_width cfg) (stride cfg) = Inr nh"
    and "num_windows (height cfg) (window_height cfg) (stride cfg) = Inr nv"
    and "target_label cfg \<in> set (load_labels file_lines)"
    and "nh < 1 \<or> nv < 1"
  shows "first_frame cfg file_lines classify = ([], Inr [])"
proof -
  from list_index_member [OF assms(3)]
  obtain t where "list_index (load_labels file_lines) (target_label cfg) = Inr t" ..

  with assms(1,2) have "startup cfg file_lines = Inr (nh, nv, t)"
    by (simp add: startup_def)
  then have "first_frame cfg file_lines classify = scan cfg classify nh nv t"
    by (rule first_frame_Inr)
  also have "\<dots> = ([], Inr [])"
    using assms(4) by (simp add: scan_windows windows_empty)
  finally show ?thesis .
qed

theorem C6_no_windows_empty_result_witness:
  "num_windows (width narrow_frame_settings) (window_width narrow_frame_settings)
     (stride narrow_frame_settings) = Inr 0 \<and>
   num_windows (height narrow_frame_settings) (window_height narrow_frame_settings)
     (stride narrow_frame_settings) = Inr 4 \<and>
   target_label narrow_frame_settings \<in> set (load_labels example_labels_file) \<and>
   ((0::int) < 1 \<or> (4::int) < 1) \<and>
   first_frame narrow_frame_settings example_labels_file example_classifier = ([], Inr [])"
proof -
  have lt: "(0::int) < 1 \<or> (4::int) < 1" by simp
  show ?thesis
    by (intro conjI)
       (rule narrow_num_windows narrow_label lt
          C6_no_windows_empty_result [OF narrow_num_windows narrow_label lt])+
qed

text \<open>
  C7, as stated, fails: with two labels and target index 1, a classifier that returns three
  probabilities for the single window of a full-frame scan is accepted, and the scan
  returns a detection with the probability at index 1.
\<close>

theorem C7_length_mismatch_counterexample:
  "load_labels example_labels_file = [''cat'', ''dog''] \<and>
   startup full_frame_settings example_labels_file = Inr (1, 1, 1) \<and>
   long_classifier (0, 0, 160, 120) = Inr [[0.1, 0.9, 0.5]] \<and>
   length [0.1, 0.9, 0.5 :: real] \<noteq> length (load_labels example_labels_file) \<and>
   first_frame full_frame_settings example_labels_file long_classifier =
     ([(0, 0, 160, 120)], Inr [(0, 0, 160, 120, 0.9)])"
proof -
  have a: "long_classifier (0, 0, 160, 120) = Inr [[0.1, 0.9, 0.5]]"
    by (simp add: long_classifier_def)
  have b: "length [0.1, 0.9, 0.5 :: real] \<noteq> length (load_labels example_labels_file)"
    by (simp add: example_labels)
  have c: "first_frame full_frame_settings example_labels_file long_classifier =
     ([(0, 0, 160, 120)], Inr [(0, 0, 160, 120, 0.9)])"
    by (simp only: first_frame_Inr [OF full_frame_startup] full_frame_long)
  show ?thesis
    by (intro conjI) (rule example_labels full_frame_startup a b c)+
qed

text \<open>
  C7, amended. The scan compares no lengths; it fails on a window only when the first
  prediction's probability vector has no entry at the target index. If on some window of
  the scan the classifier returns a vector of length at most the target index, the scan
  raises instead of returning a detection list. If on every window the vector is longer
  than the target index, whatever the number of labels, the scan is accepted: it returns,
  having invoked the classifier on every window, and the score of each window is the
  vector's entry at the target index, the returned boxes being those of the windows whose
  entry meets the threshold.
\<close>

theorem C7_missing_target_entry:
  "((\<exists>r \<in> set (windows cfg nh nv). \<exists>predictions others.
        classify r = Inr (predictions # others) \<and> length predictions \<le> t) \<longrightarrow>
    (\<exists>calls e. scan cfg classify nh nv t = (calls, Inl e))) \<and>
   ((\<forall>r \<in> set (windows cfg nh nv). \<exists>predictions others.
        classify r = Inr (predictions # others) \<and> t < length predictions) \<longrightarrow>
    scan cfg classify nh nv t =
      (windows cfg nh nv, Inr (reported cfg classify t (windows cfg nh nv))))"
proof (intro conjI impI)
  assume "\<exists>r \<in> set (windows cfg nh nv). \<exists>predictions others.
            classify r = Inr (predictions # others) \<and> length predictions \<le> t"
  then obtain r predictions others where r: "r \<in> set (windows cfg nh nv)"
    and "classify r = Inr (predictions # others)" and "length predictions \<le> t"
    by blast
  then have bad: "window_score classify t r = Inl IndexError"
    by (simp add: window_score_short)
  show "\<exists>calls e. scan cfg classify nh nv t = (calls, Inl e)"
  proof (cases rule: scan_outcome_cases [of cfg classify nh nv t])
    case (raised calls e)
    then show ?thesis by blast
  next
    case (returned calls bboxes)
    from scan_Inr(1) [OF returned] r have "\<not> isl (window_score classify t r)"
      by (simp add: answers_def list_all_iff)
    with bad show ?thesis by simp
  qed
next
  assume "\<forall>r \<in> set (windows cfg nh nv). \<exists>predictions others.
            classify r = Inr (predictions # others) \<and> t < length predictions"
  then have "answers classify t (windows cfg nh nv)"
    by (simp only: answers_iff)
  then show "scan cfg classify nh nv t =
      (windows cfg nh nv, Inr (reported cfg classify t (windows cfg nh nv)))"
    by (rule scan_reported)
qed

theorem C7_missing_target_entry_witness:
  "short_classifier (0, 0, 160, 120) = Inr [[0.9]] \<and>
   length [0.9 :: real] \<le> 1 \<and>
   (\<exists>calls e. scan full_frame_settings short_classifier 1 1 1 = (calls, Inl e)) \<and>
   list_all (\<lambda>r. long_classifier r = Inr [[0.1, 0.9, 0.5]]) (windows full_frame_settings 1 1) \<and>
   1 < length [0.1, 0.9, 0.5 :: real] \<and>
   [0.1, 0.9, 0.5 :: real] ! 1 = 0.9 \<and>
   scan full_frame_settings long_classifier 1 1 1 =
     ([(0, 0, 160, 120)], Inr [(0, 0, 160, 120, 0.9)])"
proof -
  have s: "short_classifier (0, 0, 160, 120) = Inr [[0.9]]" "length [0.9 :: real] \<le> 1"
    by (simp_all add: short_classifier_def)
  have l: "list_all (\<lambda>r. long_classifier r = Inr [[0.1, 0.9, 0.5]])
             (windows full_frame_settings 1 1)"
    "1 < length [0.1, 0.9, 0.5 :: real]" "[0.1, 0.9, 0.5 :: real] ! 1 = 0.9"
    by (simp_all add: long_classifier_def list_all_iff)
  have "\<exists>r \<in> set (windows full_frame_settings 1 1). \<exists>predictions others.
          short_classifier r = Inr (predictions # others) \<and> length predictions \<le> 1"
    by (simp add: full_frame_windows short_classifier_def)
  with C7_missing_target_entry [of full_frame_settings 1 1 short_classifier 1]
  have a: "\<exists>calls e. scan full_frame_settings short_classifier 1 1 1 = (calls, Inl e)"
    by (rule conjunct1 [THEN mp])
  have "\<forall>r \<in> set (windows full_frame_settings 1 1). \<exists>predictions others.
          long_classifier r = Inr (predictions # others) \<and> 1 < length predictions"
    by (simp add: full_frame_windows long_classifier_def)
  with C7_missing_target_entry [of full_frame_settings 1 1 long_classifier 1]
  have "scan full_frame_settings long_classifier 1 1 1 =
      (windows full_frame_settings 1 1,
       Inr (reported full_frame_settings long_classifier 1 (windows full_frame_settings 1 1)))"
    by (rule conjunct2 [THEN mp])
  moreover have "reported full_frame_settings long_classifier 1 [(0, 0, 160, 120)] =
      [(0, 0, 160, 120, 0.9)]"
    by (simp add: reported_def target_entry_def long_classifier_def full_frame_settings_def
          default_settings_def)
  ultimately have b: "scan full_frame_settings long_classifier 1 1 1 =
     ([(0, 0, 160, 120)], Inr [(0, 0, 160, 120, 0.9)])"
    by (simp only: full_frame_windows)
  show ?thesis
    by (intro conjI) (rule s l a b)+
qed

text \<open>
  C8, as stated, fails: when the classifier raises on the second window of the default
  raster, the scan ends there with that error; the third window, on which the classifier
  would have answered 0.9, is never evaluated and no detection list is returned.
\<close>

theorem C8_later_windows_counterexample:
  "failing_classifier (24, 0, 48, 48) = Inl OSError \<and>
   (48, 0, 48, 48) \<in> set (windows default_settings 5 4) \<and>
   window_score failing_classifier 1 (48, 0, 48, 48) = Inr 0.9 \<and>
   scan default_settings failing_classifier 5 4 1 =
     ([(0, 0, 48, 48), (24, 0, 48, 48)], Inl OSError) \<and>
   (48, 0, 48, 48) \<notin> set (fst (scan default_settings failing_classifier 5 4 1))"
proof -
  have run: "scan default_settings failing_classifier 5 4 1 =
     ([(0, 0, 48, 48), (24, 0, 48, 48)], Inl OSError)"
    using scan_list_fail [OF failing_answers
            window_score_raise [of failing_classifier "(24, 0, 48, 48)" OSError 1,
              OF failing_raise],
            of default_settings _ "[]" "[]"]
    by (simp add: scan_windows example_windows_split)
  have mem: "(48, 0, 48, 48) \<in> set (windows default_settings 5 4)"
    by (simp add: example_windows)
  have sc: "window_score failing_classifier 1 (48, 0, 48, 48) = Inr 0.9"
    by (simp add: failing_classifier_def window_score_def example_classifier_def getitem_def)
  have out: "(48, 0, 48, 48) \<notin> set (fst (scan default_settings failing_classifier 5 4 1))"
    unfolding run by simp
  show ?thesis
    by (intro conjI) (rule failing_raise mem sc run out)+
qed

text \<open>
  C8, amended. If the classifier answers on the windows before \<open>r\<close> in raster order and
  raises \<open>e\<close> on \<open>r\<close>, the scan raises \<open>e\<close>: the classifier has been invoked on the
  windows up to and including \<open>r\<close> and on none after it, and no detection list is
  returned for the frame.
\<close>

theorem C8_failure_propagates:
  assumes "windows cfg nh nv = pre @ r # post"
    and "answers classify t pre"
    and "classify r = Inl e"
  shows "scan cfg classify nh nv t = (pre @ [r], Inl e)"
proof -
  from assms(3) have "window_score classify t r = Inl e"
    by (rule window_score_raise)
  from scan_list_fail [OF assms(2) this, of cfg post "[]" "[]"] assms(1)
  show ?thesis by (simp add: scan_windows)
qed

theorem C8_failure_propagates_witness:
  "answers failing_classifier 1 [(0, 0, 48, 48)] \<and>
   failing_classifier (24, 0, 48, 48) = Inl OSError \<and>
   scan default_settings failing_classifier 5 4 1 =
     ([(0, 0, 48, 48)] @ [(24, 0, 48, 48)], Inl OSError)"
  by (intro conjI)
     (rule failing_answers failing_raise
        C8_failure_propagates [OF example_windows_split failing_answers failing_raise])+

text \<open>
  C9. If the target label is not among the loaded labels, start-up raises (ValueError,
  unless the zero stride has raised before) and the classifier is never invoked; if it is
  among them and the stride is not zero, start-up fixes the target index to the first
  position of the label in the label list, and the scan runs with that index.
\<close>

theorem C9_target_label:
  "(target_label cfg \<notin> set (load_labels file_lines) \<longrightarrow>
      (\<exists>e. startup cfg file_lines = Inl e \<and>
           first_frame cfg file_lines classify = ([], Inl e) \<and>
           (stride cfg \<noteq> 0 \<longrightarrow> e = ValueError))) \<and>
   (target_label cfg \<in> set (load_labels file_lines) \<and> stride cfg \<noteq> 0 \<longrightarrow>
      (\<exists>nh nv t. startup cfg file_lines = Inr (nh, nv, t) \<and>
           t < length (load_labels file_lines) \<and>
           load_labels file_lines ! t = target_label cfg \<and>
           (\<forall>j<t. load_labels file_lines ! j \<noteq> target_label cfg) \<and>
           first_frame cfg file_lines classify = scan cfg classify nh nv t))"
proof (intro conjI impI)
  assume "target_label cfg \<notin> set (load_labels file_lines)"
  then have "startup cfg file_lines =
               Inl (if stride cfg = 0 then ZeroDivisionError else ValueError)"
    by (rule startup_absent)
  then show "\<exists>e. startup cfg file_lines = Inl e \<and>
           first_frame cfg file_lines classify = ([], Inl e) \<and>
           (stride cfg \<noteq> 0 \<longrightarrow> e = ValueError)"
    by (simp add: first_frame_def)
next
  assume a: "target_label cfg \<in> set (load_labels file_lines) \<and> stride cfg \<noteq> 0"
  then have "target_label cfg \<in> set (load_labels file_lines)" ..
  from list_index_member [OF this]
  obtain t where t: "list_index (load_labels file_lines) (target_label cfg) = Inr t" ..
  let ?nh = "(width cfg - window_width cfg) div stride cfg + 1"
  let ?nv = "(height cfg - window_height cfg) div stride cfg + 1"
  from a t have s: "startup cfg file_lines = Inr (?nh, ?nv, t)"
    by (simp add: startup_Inr)
  from t have "t < length (load_labels file_lines) \<and>
           load_labels file_lines ! t = target_label cfg \<and>
           (\<forall>j<t. load_labels file_lines ! j \<noteq> target_label cfg)"
    by (rule list_index_Inr [THEN iffD1])
  with s first_frame_Inr [OF s, of classify]
  show "\<exists>nh nv t. startup cfg file_lines = Inr (nh, nv, t) \<and>
           t < length (load_labels file_lines) \<and>
           load_labels file_lines ! t = target_label cfg \<and>
           (\<forall>j<t. load_labels file_lines ! j \<noteq> target_label cfg) \<and>
           first_frame cfg file_lines classify = scan cfg classify nh nv t"
    by blast
qed

theorem C9_target_label_witness:
  "target_label other_label_settings \<notin> set (load_labels example_labels_file) \<and>
   first_frame other_label_settings example_labels_file example_classifier =
     ([], Inl ValueError) \<and>
   target_label default_settings \<in> set (load_labels example_labels_file) \<and>
   stride default_settings \<noteq> 0 \<and>
   startup default_settings example_labels_file = Inr (5, 4, 1) \<and>
   load_labels example_labels_file ! 1 = target_label default_settings \<and>
   first_frame default_settings example_labels_file example_classifier =
     scan default_settings example_classifier 5 4 1"
proof -
  have absent: "target_label other_label_settings \<notin> set (load_labels example_labels_file)"
    by (simp add: example_labels other_label_settings_def default_settings_def)
  have nz: "stride other_label_settings \<noteq> 0"
    by (simp add: other_label_settings_def default_settings_def)
  from C9_target_label [of other_label_settings example_labels_file example_classifier,
         THEN conjunct1, THEN mp, OF absent] nz
  have fail: "first_frame other_label_settings example_labels_file example_classifier =
     ([], Inl ValueError)"
    by auto
  have present: "target_label default_settings \<in> set (load_labels example_labels_file)"
    "stride default_settings \<noteq> 0"
    by (simp_all add: example_labels default_settings_def)
  then have "target_label default_settings \<in> set (load_labels example_labels_file) \<and>
             stride default_settings \<noteq> 0" by simp
  from C9_target_label [of default_settings example_labels_file example_classifier,
         THEN conjunct2, THEN mp, OF this]
  obtain nh nv t where "startup default_settings example_labels_file = Inr (nh, nv, t)"
    and idx: "load_labels example_labels_file ! t = target_label default_settings"
    and run: "first_frame default_settings example_labels_file example_classifier =
           scan default_settings example_classifier nh nv t"
    by auto
  with example_startup have "nh = 5" "nv = 4" "t = 1" by simp_all
  with idx run have ok: "load_labels example_labels_file ! 1 = target_label default_settings"
    "first_frame default_settings example_labels_file example_classifier =
       scan default_settings example_classifier 5 4 1"
    by simp_all
  show ?thesis
    by (intro conjI) (rule absent fail present example_startup ok)+
qed

text \<open>
  C10. Two classifiers whose answers agree on the first prediction object (and on raising)
  give the same scan: the same invocations, the same outcome. Prediction objects after the
  first have no effect.
\<close>

theorem C10_first_prediction_only:
  assumes "first_only classify = first_only classify'"
  shows "scan cfg classify nh nv t = scan cfg classify' nh nv t"
proof -
  have "\<And>r. window_score classify t r = window_score classify' t r"
  proof -
    fix r
    have "window_score classify t r = window_score (first_only classify) t r"
      by (simp only: window_score_first_only)
    also have "\<dots> = window_score (first_only classify') t r"
      by (simp only: assms)
    also have "\<dots> = window_score classify' t r"
      by (simp only: window_score_first_only)
    finally show "window_score classify t r = window_score classify' t r" .
  qed
  then have "scan_list cfg classify t (windows cfg nh nv) [] [] =
             scan_list cfg classify' t (windows cfg nh nv) [] []"
    by (rule scan_list_cong)
  then show ?thesis by (simp only: scan_windows)
qed

theorem C10_first_prediction_only_witness:
  "first_only extra_object_classifier = first_only example_classifier \<and>
   extra_object_classifier (72, 0, 48, 48) = Inr [[0, 0.3], [0, 1]] \<and>
   example_classifier (72, 0, 48, 48) = Inr [[0, 0.3]] \<and>
   scan default_settings extra_object_classifier 5 4 1 =
     (windows default_settings 5 4,
      Inr [(0, 0, 48, 48, 0.7), (24, 0, 48, 48, 0.6), (48, 0, 48, 48, 0.9)])"
proof -
  have a: "extra_object_classifier (72, 0, 48, 48) = Inr [[0, 0.3], [0, 1]]"
    "example_classifier (72, 0, 48, 48) = Inr [[0, 0.3]]"
    by (simp_all add: extra_object_classifier_def example_classifier_def)
  have b: "scan default_settings extra_object_classifier 5 4 1 =
     (windows default_settings 5 4,
      Inr [(0, 0, 48, 48, 0.7), (24, 0, 48, 48, 0.6), (48, 0, 48, 48, 0.9)])"
    by (simp only: C10_first_prediction_only [OF extra_object_first_only] example_scan)
  show ?thesis
    by (intro conjI) (rule extra_object_first_only a b)+
qed

end
